theory Spec2Isabelle
  imports Main "HOL-Library.Sublist" "HOL-Library.AList"
begin

section \<open>Text\<close>

text \<open>
  A Python \<^verbatim>\<open>str\<close> is the list of its Unicode code points. ASCII literals of the source
  are written \<open>str ''...''\<close>; the emoji of the source are written by their code points.
\<close>

type_synonym pystr = "nat list"

definition str :: "string \<Rightarrow> pystr" where
  "str s = map of_char s"

definition LF :: nat where
  "LF = 10"

text \<open>\<^verbatim>\<open>kw in s\<close> on strings: \<open>kw\<close> occurs in \<open>s\<close> as a contiguous run.\<close>

fun contains :: "pystr \<Rightarrow> pystr \<Rightarrow> bool" where
  "contains kw [] = (kw = [])"
| "contains kw (c # cs) = (prefix kw (c # cs) \<or> contains kw cs)"

text \<open>\<^verbatim>\<open>any(kw in s for kw in kws)\<close>\<close>

definition any_in :: "pystr list \<Rightarrow> pystr \<Rightarrow> bool" where
  "any_in kws s = list_ex (\<lambda>kw. contains kw s) kws"

text \<open>
  \<^verbatim>\<open>s.lower()\<close>. On text that is all ASCII it maps \<open>A..Z\<close> to \<open>a..z\<close>. On other text
  Python applies the Unicode case tables of its runtime, which are no part of the
  repository: they are the parameter \<open>ul\<close>.
\<close>

definition ascii_lower :: "nat \<Rightarrow> nat" where
  "ascii_lower c = (if 65 \<le> c \<and> c \<le> 90 then c + 32 else c)"

definition lower :: "(pystr \<Rightarrow> pystr) \<Rightarrow> pystr \<Rightarrow> pystr" where
  "lower ul s = (if list_all (\<lambda>c. c < 128) s then map ascii_lower s else ul s)"

section \<open>Keyword tables\<close>

text \<open>Dictionaries of the source are association lists in the order of the source text.\<close>

definition EMOJI_MAP :: "(pystr \<times> pystr) list" where
  "EMOJI_MAP =
   [(str ''Analytics'', [0x1F4CA]),
    (str ''BIM-Analysis'', [0x1F50D]),
    (str ''BIM-Visualization'', [0x1F5BC, 0xFE0F]),
    (str ''CAD-Converters'', [0x1F4C4]),
    (str ''Closeout'', [0x2705]),
    (str ''Cost-Management'', [0x1F4B0]),
    (str ''CWICR-Database'', [0x1F5C4, 0xFE0F]),
    (str ''Document-Control'', [0x1F4CB]),
    (str ''Field-Operations'', [0x1F3D7, 0xFE0F]),
    (str ''Kaggle-Notebooks'', [0x1F4D3]),
    (str ''Procurement'', [0x1F6D2]),
    (str ''Project-Closeout'', [0x2705]),
    (str ''Resource-Management'', [0x1F477]),
    (str ''Schedule-Integration'', [0x1F4C5]),
    (str ''Schedule-Management'', [0x1F4C5]),
    (str ''Sustainability'', [0x1F331]),
    (str ''1.1-Data-Evolution'', [0x1F4DA]),
    (str ''1.2-Data-Silos-Integration'', [0x1F517]),
    (str ''2.1-Data-Types-Classification'', [0x1F3F7, 0xFE0F]),
    (str ''2.2-Open-Data-Standards'', [0x1F310]),
    (str ''2.3-Pandas-LLM-Analysis'', [0x1F43C]),
    (str ''2.4-PDF-CAD-to-Data'', [0x1F4D1]),
    (str ''2.5-Data-Modeling-Standards'', [0x1F4D0]),
    (str ''2.6-Data-Quality-Validation'', [0x2714, 0xFE0F]),
    (str ''3.1-Cost-Estimation'', [0x1F9EE]),
    (str ''3.2-QTO-Auto-Estimates'', [0x26A1]),
    (str ''3.3-4D-BIM-CO2-Simulation'', [0x1F3AC]),
    (str ''3.4-ERP-Integration'', [0x1F504]),
    (str ''3.5-Interoperability'', [0x1F500]),
    (str ''4.1-Analytics-KPI-Dashboard'', [0x1F4C8]),
    (str ''4.2-ETL-Automation'', [0x2699, 0xFE0F]),
    (str ''4.3-BIM-Validation-Pipeline'', [0x1F50E]),
    (str ''4.4-Vector-Search-BigData'', [0x1F522]),
    (str ''4.5-ML-Cost-Prediction'', [0x1F916]),
    (str ''5.1-Digital-Maturity-Strategy'', [0x1F3AF]),
    (str ''AI-Agents'', [0x1F916]),
    (str ''Automation-Workflows'', [0x1F527]),
    (str ''Field-Automation'', [0x1F4F1]),
    (str ''Open-Data-Transparency'', [0x1F30D]),
    (str ''Safety-Quality'', [0x1F9BA]),
    (str ''Schedule-Optimization'', [0x23F1, 0xFE0F]),
    (str ''Contract-Legal'', [0x1F4DD]),
    (str ''Data-Validation'', [0x2714, 0xFE0F]),
    (str ''Document-Generation'', [0x1F4C4]),
    (str ''Financial-Management'', [0x1F4B5]),
    (str ''Prompt-Engineering'', [0x1F4A1]),
    (str ''Quality-Assurance'', [0x1F6E1, 0xFE0F]),
    (str ''5_DDC_Innovative'', [0x1F680])]"

definition WIN32_KEYWORDS :: "pystr list" where
  "WIN32_KEYWORDS =
   [str ''RvtExporter'', str ''DwgExporter'', str ''DgnExporter'', str ''RVT2IFCconverter'',
    str ''Revit'', str ''.rvt'', str ''AutoCAD'', str ''MicroStation'', str ''.dgn'',
    str ''revit_'', str ''pyrevit'']"

definition NETWORK_KEYWORDS :: "pystr list" where
  "NETWORK_KEYWORDS =
   [str ''requests.get'', str ''requests.post'', str ''urllib'', str ''httpx'',
    str ''API_KEY'', str ''api_key'', str ''OPENAI_API'', str ''QDRANT'',
    str ''webhook'', str ''REST API'', str ''GraphQL'', str ''endpoint'',
    str ''telegram'', str ''slack'', str ''n8n'']"

definition BIN_REQUIREMENTS :: "(pystr \<times> pystr list) list" where
  "BIN_REQUIREMENTS =
   [(str ''python3'', [str ''import '', str ''python'', str ''pip install'', str ''pandas'', str ''numpy'']),
    (str ''tesseract'', [str ''tesseract'', str ''pytesseract'', str ''OCR'']),
    (str ''ifcopenshell'', [str ''ifcopenshell'', str ''IfcOpenShell'']),
    (str ''IfcConvert'', [str ''IfcConvert''])]"

definition ENV_REQUIREMENTS :: "(pystr \<times> pystr list) list" where
  "ENV_REQUIREMENTS =
   [(str ''OPENAI_API_KEY'', [str ''OPENAI_API_KEY'', str ''openai.api_key'', str ''OpenAI('']),
    (str ''QDRANT_URL'', [str ''QDRANT_URL'', str ''QdrantClient'', str ''qdrant''])]"

section \<open>Classifier\<close>

datatype error = IndexError | KeyError

text \<open>
  A skill path is given by \<^verbatim>\<open>skill_path.relative_to(BASE).parts\<close>, the folder names below
  \<^verbatim>\<open>BASE\<close>. Indexing the empty list of parts raises.
\<close>

definition get_subcategory :: "pystr list \<Rightarrow> error + pystr" where
  "get_subcategory parts =
     (if length parts \<ge> 3 then Inr (parts ! 1)
      else case parts of [] \<Rightarrow> Inl IndexError | p # _ \<Rightarrow> Inr p)"

definition get_top_category :: "pystr list \<Rightarrow> error + pystr" where
  "get_top_category parts = (case parts of [] \<Rightarrow> Inl IndexError | p # _ \<Rightarrow> Inr p)"

definition name_emoji :: "pystr \<Rightarrow> pystr" where
  "name_emoji name =
     (if any_in [str ''cost'', str ''estimat'', str ''budget'', str ''price'', str ''payment''] name
        then [0x1F4B0]
      else if any_in [str ''schedule'', str ''gantt'', str ''4d'', str ''timeline''] name
        then [0x1F4C5]
      else if any_in [str ''safety'', str ''inspection'', str ''compliance''] name
        then [0x1F9BA]
      else if any_in [str ''report'', str ''document'', str ''pdf'', str ''docx''] name
        then [0x1F4C4]
      else if any_in [str ''bim'', str ''ifc'', str ''revit''] name
        then [0x1F3D7, 0xFE0F]
      else if any_in [str ''ml'', str ''predict'', str ''ai'', str ''neural''] name
        then [0x1F916]
      else if any_in [str ''data'', str ''etl'', str ''pipeline''] name
        then [0x1F4CA]
      else [0x1F527])"

text \<open>The seven keyword groups of \<open>name_emoji\<close> as a table, in the order of the source,
  each with its emoji: it states the order of the fallback.\<close>

definition name_emoji_groups :: "(pystr list \<times> pystr) list" where
  "name_emoji_groups =
   [([str ''cost'', str ''estimat'', str ''budget'', str ''price'', str ''payment''], [0x1F4B0]),
    ([str ''schedule'', str ''gantt'', str ''4d'', str ''timeline''], [0x1F4C5]),
    ([str ''safety'', str ''inspection'', str ''compliance''], [0x1F9BA]),
    ([str ''report'', str ''document'', str ''pdf'', str ''docx''], [0x1F4C4]),
    ([str ''bim'', str ''ifc'', str ''revit''], [0x1F3D7, 0xFE0F]),
    ([str ''ml'', str ''predict'', str ''ai'', str ''neural''], [0x1F916]),
    ([str ''data'', str ''etl'', str ''pipeline''], [0x1F4CA])]"

definition determine_emoji :: "pystr list \<Rightarrow> pystr \<Rightarrow> error + pystr" where
  "determine_emoji skill_path name =
     (case get_subcategory skill_path of
        Inl e \<Rightarrow> Inl e
      | Inr subcat \<Rightarrow>
         (case get_top_category skill_path of
            Inl e \<Rightarrow> Inl e
          | Inr topcat \<Rightarrow>
             (case map_of EMOJI_MAP subcat of
                Some e \<Rightarrow> Inr e
              | None \<Rightarrow>
                 (case map_of EMOJI_MAP topcat of
                    Some e \<Rightarrow> Inr e
                  | None \<Rightarrow> Inr (name_emoji name)))))"

fun determine_os_loop :: "pystr list \<Rightarrow> pystr \<Rightarrow> pystr list" where
  "determine_os_loop [] content = [str ''darwin'', str ''linux'', str ''win32'']"
| "determine_os_loop (kw # kws) content =
     (if contains kw content then [str ''win32''] else determine_os_loop kws content)"

definition determine_os :: "pystr \<Rightarrow> pystr list" where
  "determine_os content = determine_os_loop WIN32_KEYWORDS content"

definition determine_permissions :: "pystr \<Rightarrow> pystr list" where
  "determine_permissions content =
     (let perms = [str ''filesystem'']
      in if any_in NETWORK_KEYWORDS content then perms @ [str ''network''] else perms)"

definition tag_keywords :: "(pystr \<times> pystr list) list" where
  "tag_keywords =
   [(str ''estimation'', [str ''estimat'', str ''cost'', str ''price'', str ''budget'']),
    (str ''BIM'', [str ''bim'', str ''ifc'', str ''revit'', str ''rvt'']),
    (str ''cost-management'', [str ''cost'', str ''budget'', str ''payment'', str ''invoice'']),
    (str ''scheduling'', [str ''schedule'', str ''gantt'', str ''4d'', str ''critical-path'', str ''delay'']),
    (str ''data-processing'', [str ''data'', str ''etl'', str ''pipeline'', str ''csv'', str ''json'', str ''xml'']),
    (str ''safety'', [str ''safety'', str ''inspection'', str ''compliance'', str ''incident'']),
    (str ''reporting'', [str ''report'', str ''dashboard'', str ''kpi'', str ''analytics'']),
    (str ''machine-learning'', [str ''ml'', str ''predict'', str ''neural'', str ''model'', str ''forecast'']),
    (str ''document-management'', [str ''document'', str ''pdf'', str ''docx'', str ''rfi'', str ''submittal'']),
    (str ''quality'', [str ''quality'', str ''validation'', str ''check'', str ''verify'']),
    (str ''procurement'', [str ''procurement'', str ''bid'', str ''material'', str ''subcontractor'']),
    (str ''sustainability'', [str ''carbon'', str ''co2'', str ''energy'', str ''green'', str ''lifecycle'']),
    (str ''automation'', [str ''automat'', str ''workflow'', str ''n8n'', str ''etl'']),
    (str ''CWICR'', [str ''cwicr'']),
    (str ''GIS'', [str ''gis'', str ''coordinate'', str ''spatial'', str ''geo'']),
    (str ''CAD'', [str ''cad'', str ''dwg'', str ''dgn'', str ''drawing''])]"

text \<open>The loop over \<^verbatim>\<open>tag_keywords.items()\<close>, appending to \<^verbatim>\<open>tags\<close>.\<close>

fun tags_loop :: "(pystr \<times> pystr list) list \<Rightarrow> pystr \<Rightarrow> pystr list \<Rightarrow> pystr list" where
  "tags_loop [] combined tags = tags"
| "tags_loop ((tag, keywords) # rest) combined tags =
     tags_loop rest combined (if any_in keywords combined then tags @ [tag] else tags)"

definition determine_tags ::
  "(pystr \<Rightarrow> pystr) \<Rightarrow> pystr \<Rightarrow> pystr \<Rightarrow> pystr \<Rightarrow> pystr \<Rightarrow> pystr list" where
  "determine_tags ul name description subcat topcat =
     (let tags = [str ''construction''];
          combined = lower ul (name @ str '' '' @ description @ str '' '' @ subcat)
      in take 5 (tags_loop tag_keywords combined tags))"

text \<open>The result of \<^verbatim>\<open>determine_requires\<close>: the \<^verbatim>\<open>requires\<close> dictionary and the optional
  key \<^verbatim>\<open>primaryEnv\<close> (\<open>None\<close> when the key is absent).\<close>

record requires_info =
  requires :: "(pystr \<times> pystr list) list"
  primaryEnv :: "pystr option"

text \<open>\<^verbatim>\<open>d[k]\<close> on a dictionary raises \<^verbatim>\<open>KeyError\<close> for a missing key.\<close>

definition lookup :: "('k \<times> 'v) list \<Rightarrow> 'k \<Rightarrow> error + 'v" where
  "lookup d k = (case map_of d k of None \<Rightarrow> Inl KeyError | Some v \<Rightarrow> Inr v)"

fun any_bins_loop :: "(pystr \<times> pystr list) list \<Rightarrow> pystr \<Rightarrow> pystr list \<Rightarrow> pystr list" where
  "any_bins_loop [] content any_bins = any_bins"
| "any_bins_loop ((bin_name, keywords) # rest) content any_bins =
     (if bin_name = str ''python3'' then any_bins_loop rest content any_bins
      else any_bins_loop rest content
             (if any_in keywords content then any_bins @ [bin_name] else any_bins))"

text \<open>\<^verbatim>\<open>not primary_env\<close>: \<^verbatim>\<open>None\<close> and the empty string are false.\<close>

definition not_env :: "pystr option \<Rightarrow> bool" where
  "not_env primary_env = (case primary_env of None \<Rightarrow> True | Some s \<Rightarrow> s = [])"

fun env_loop ::
  "(pystr \<times> pystr list) list \<Rightarrow> pystr \<Rightarrow> pystr list \<times> pystr option \<Rightarrow> pystr list \<times> pystr option" where
  "env_loop [] content (env, primary_env) = (env, primary_env)"
| "env_loop ((env_name, keywords) # rest) content (env, primary_env) =
     (if any_in keywords content
      then env_loop rest content
             (env @ [env_name], if not_env primary_env then Some env_name else primary_env)
      else env_loop rest content (env, primary_env))"

definition determine_requires :: "pystr \<Rightarrow> error + requires_info" where
  "determine_requires content =
     (case lookup BIN_REQUIREMENTS (str ''python3'') of
        Inl e \<Rightarrow> Inl e
      | Inr python3_keywords \<Rightarrow>
         (let bins = (if any_in python3_keywords content then [str ''python3''] else []);
              any_bins = any_bins_loop BIN_REQUIREMENTS content [];
              (env, primary_env) = env_loop ENV_REQUIREMENTS content ([], None);
              req = (if bins \<noteq> [] then [(str ''bins'', bins)] else [])
                  @ (if any_bins \<noteq> [] then [(str ''anyBins'', any_bins)] else [])
                  @ (if env \<noteq> [] then [(str ''env'', env)] else [])
          in Inr \<lparr>requires = req,
                  primaryEnv = (if not_env primary_env then None else primary_env)\<rparr>))"

section \<open>Instruction synthesizer\<close>

definition instruction_action :: "pystr \<Rightarrow> pystr" where
  "instruction_action desc_lower =
     (if contains (str ''convert'') desc_lower \<or> contains (str ''extract'') desc_lower
        then str ''convert or extract data''
      else if contains (str ''estimat'') desc_lower \<or> contains (str ''cost'') desc_lower
        then str ''create cost estimates or analyze costs''
      else if contains (str ''analyz'') desc_lower \<or> contains (str ''analysis'') desc_lower
        then str ''analyze data and generate insights''
      else if contains (str ''generat'') desc_lower \<or> contains (str ''creat'') desc_lower
        then str ''generate documents or reports''
      else if contains (str ''manag'') desc_lower \<or> contains (str ''track'') desc_lower
        then str ''manage and track project data''
      else if contains (str ''validat'') desc_lower \<or> contains (str ''check'') desc_lower
        then str ''validate data quality and compliance''
      else if contains (str ''predict'') desc_lower \<or> contains (str ''forecast'') desc_lower
        then str ''predict outcomes using data models''
      else if contains (str ''schedul'') desc_lower
        then str ''manage schedules and timelines''
      else if contains (str ''search'') desc_lower \<or> contains (str ''query'') desc_lower
        then str ''search and query data''
      else str ''assist with construction project tasks'')"

definition instruction_domain :: "pystr \<Rightarrow> pystr" where
  "instruction_domain name =
     (if contains (str ''cwicr'') name
        then str ''construction cost data using CWICR (Construction Work Item Cost Resource) database''
      else if contains (str ''bim'') name \<or> contains (str ''ifc'') name \<or> contains (str ''rvt'') name
        then str ''BIM (Building Information Modeling) data processing''
      else if contains (str ''schedule'') name \<or> contains (str ''4d'') name \<or> contains (str ''gantt'') name
        then str ''construction project scheduling''
      else if contains (str ''safety'') name \<or> contains (str ''inspection'') name
        then str ''construction safety and compliance''
      else if contains (str ''cost'') name \<or> contains (str ''estimat'') name
              \<or> contains (str ''price'') name \<or> contains (str ''budget'') name
        then str ''construction cost estimation and management''
      else if contains (str ''report'') name \<or> contains (str ''document'') name \<or> contains (str ''pdf'') name
        then str ''construction document management and reporting''
      else if contains (str ''data'') name \<or> contains (str ''etl'') name \<or> contains (str ''pipeline'') name
        then str ''construction data processing and analytics''
      else if contains (str ''ml'') name \<or> contains (str ''predict'') name
        then str ''machine learning for construction''
      else if contains (str ''n8n'') name \<or> contains (str ''workflow'') name \<or> contains (str ''automat'') name
        then str ''construction workflow automation''
      else if contains (str ''material'') name \<or> contains (str ''procurement'') name
        then str ''construction procurement and materials management''
      else str ''construction project management'')"

text \<open>The fixed text of the template after the line of the action phrase, line by line.\<close>

definition instruction_tail :: "pystr list" where
  "instruction_tail =
   [str ''1. Gather the required input data from the user'',
    str ''2. Process the data using the methods described in SKILL.md'',
    str ''3. Present results in a clear, structured format'',
    str ''4. Offer follow-up analysis or export options'',
    [],
    str ''## Input Format'',
    str ''- The user provides project data, file paths, or parameters as described in SKILL.md'',
    str ''- Accept data in common formats: CSV, Excel, JSON, or direct input'',
    [],
    str ''## Output Format'',
    str ''- Present results in structured tables when applicable'',
    str ''- Include summary statistics and key findings'',
    str ''- Offer export to Excel/CSV/JSON when relevant'',
    [],
    str ''## Key Reference'',
    str ''- See SKILL.md for detailed implementation code, classes, and methods'',
    str ''- Follow the patterns and APIs defined in the skill documentation'',
    [],
    str ''## Constraints'',
    str ''- Only use data provided by the user or referenced in the skill'',
    str ''- Validate inputs before processing'',
    str ''- Report errors clearly with suggested fixes'',
    str ''- Follow construction industry standards and best practices'']"

text \<open>\<^verbatim>\<open>sep.join(xs)\<close>\<close>

fun join :: "pystr \<Rightarrow> pystr list \<Rightarrow> pystr" where
  "join sep [] = []"
| "join sep [x] = x"
| "join sep (x # y # zs) = x @ sep @ join sep (y # zs)"

text \<open>The template is the text of its lines, each ended by a line feed. The parameter
  \<open>content\<close> is received and not used, as in the source.\<close>

definition generate_instructions :: "(pystr \<Rightarrow> pystr) \<Rightarrow> pystr \<Rightarrow> pystr \<Rightarrow> pystr \<Rightarrow> pystr" where
  "generate_instructions ul name description content =
     (let desc_lower = lower ul description;
          action = instruction_action desc_lower;
          domain = instruction_domain name
      in join [LF]
           ([str ''You are a construction industry assistant specializing in '' @ domain @ str ''.'',
             [],
             description,
             [],
             str ''When the user asks to '' @ action @ str '':'']
            @ instruction_tail) @ [LF])"

section \<open>Header parsing\<close>

text \<open>The characters that \<^verbatim>\<open>str.strip()\<close> removes and that \<^verbatim>\<open>\s\<close> matches in a
  \<^verbatim>\<open>str\<close> pattern: the Unicode white space of Python.\<close>

definition is_space :: "nat \<Rightarrow> bool" where
  "is_space c \<longleftrightarrow>
     (9 \<le> c \<and> c \<le> 13) \<or> (28 \<le> c \<and> c \<le> 32) \<or> c = 0x85 \<or> c = 0xA0 \<or> c = 0x1680
     \<or> (0x2000 \<le> c \<and> c \<le> 0x200A) \<or> c = 0x2028 \<or> c = 0x2029 \<or> c = 0x202F
     \<or> c = 0x205F \<or> c = 0x3000"

text \<open>\<^verbatim>\<open>s.strip()\<close> and \<^verbatim>\<open>s.strip(c)\<close> for a single character \<open>c\<close>.\<close>

definition strip_where :: "(nat \<Rightarrow> bool) \<Rightarrow> pystr \<Rightarrow> pystr" where
  "strip_where P s = rev (dropWhile P (rev (dropWhile P s)))"

definition strip :: "pystr \<Rightarrow> pystr" where
  "strip s = strip_where is_space s"

definition strip_char :: "nat \<Rightarrow> pystr \<Rightarrow> pystr" where
  "strip_char c s = strip_where ((=) c) s"

text \<open>\<^verbatim>\<open>s.split(sep)\<close> for a single character \<open>sep\<close>: never the empty list.\<close>

fun split_on :: "nat \<Rightarrow> pystr \<Rightarrow> pystr list" where
  "split_on sep [] = [[]]"
| "split_on sep (c # cs) =
     (if c = sep then [] # split_on sep cs
      else (case split_on sep cs of [] \<Rightarrow> [[c]] | l # ls \<Rightarrow> (c # l) # ls))"

text \<open>
  The pattern \<^verbatim>\<open>^---\s*\n(.*?)\n---\s*\n\<close>, matched at the start of the text with
  \<^verbatim>\<open>re.DOTALL\<close>, in the order in which the backtracking matcher tries the alternatives.

  \<open>closer_at s\<close>: \<^verbatim>\<open>\n---\s*\n\<close> matched at the start of \<open>s\<close>. These are the last atoms of
  the pattern, so the greedy \<^verbatim>\<open>\s*\<close> gives back characters up to the last line feed of
  the white space after the dashes. The result is the text after the match.
\<close>

definition closer_at :: "pystr \<Rightarrow> pystr option" where
  "closer_at s =
     (if prefix (LF # str ''---'') s
      then (let r = drop 4 s; w = takeWhile is_space r
            in if LF \<in> set w
               then Some (rev (takeWhile (\<lambda>c. c \<noteq> LF) (rev w)) @ dropWhile is_space r)
               else None)
      else None)"

text \<open>\<open>find_closer s\<close>: the lazy group \<^verbatim>\<open>(.*?)\<close> followed by the closing delimiter: the
  shortest group first. The result is the group and the text after the match.\<close>

fun find_closer :: "pystr \<Rightarrow> (pystr \<times> pystr) option" where
  "find_closer [] = (case closer_at [] of Some body \<Rightarrow> Some ([], body) | None \<Rightarrow> None)"
| "find_closer (c # cs) =
     (case closer_at (c # cs) of
        Some body \<Rightarrow> Some ([], body)
      | None \<Rightarrow> (case find_closer cs of None \<Rightarrow> None | Some (g, body) \<Rightarrow> Some (c # g, body)))"

text \<open>\<open>opener_ends w rest\<close>: the texts that follow \<^verbatim>\<open>---\s*\n\<close> when the white space after
  the opening dashes is \<open>w\<close> and \<open>rest\<close> follows it: one for each line feed of \<open>w\<close>, the
  last line feed first (the greedy \<^verbatim>\<open>\s*\<close> tries the longest run first).\<close>

fun opener_ends :: "pystr \<Rightarrow> pystr \<Rightarrow> pystr list" where
  "opener_ends [] rest = []"
| "opener_ends (c # w) rest = opener_ends w rest @ (if c = LF then [w @ rest] else [])"

fun first_match :: "pystr list \<Rightarrow> (pystr \<times> pystr) option" where
  "first_match [] = None"
| "first_match (r # rs) = (case find_closer r of Some m \<Rightarrow> Some m | None \<Rightarrow> first_match rs)"

text \<open>The result of \<^verbatim>\<open>re.match\<close>: \<^verbatim>\<open>match.group(1)\<close> and \<^verbatim>\<open>content[match.end():]\<close>.\<close>

definition match_frontmatter :: "pystr \<Rightarrow> (pystr \<times> pystr) option" where
  "match_frontmatter content =
     (if prefix (str ''---'') content
      then (let r = drop 3 content
            in first_match (opener_ends (takeWhile is_space r) (dropWhile is_space r)))
      else None)"

text \<open>The header dictionary \<^verbatim>\<open>fm\<close> is an association list in insertion order;
  \<^verbatim>\<open>fm[key] = value\<close> is \<open>AList.update\<close>.\<close>

type_synonym frontmatter = "(pystr \<times> pystr) list"

definition COLON :: nat where
  "COLON = 58"

fun fm_loop :: "pystr list \<Rightarrow> frontmatter \<Rightarrow> frontmatter" where
  "fm_loop [] fm = fm"
| "fm_loop (line # lines) fm =
     (let line = strip line
      in if COLON \<in> set line
         then (let key = strip (takeWhile (\<lambda>c. c \<noteq> COLON) line);
                   val = drop 1 (dropWhile (\<lambda>c. c \<noteq> COLON) line);
                   val = strip_char 39 (strip_char 34 (strip val))
               in fm_loop lines (AList.update key val fm))
         else fm_loop lines fm)"

definition parse_frontmatter :: "pystr \<Rightarrow> frontmatter option \<times> pystr" where
  "parse_frontmatter content =
     (case match_frontmatter content of
        None \<Rightarrow> (None, content)
      | Some (fm_text, body) \<Rightarrow> (Some (fm_loop (split_on LF fm_text) []), body))"

section \<open>Serialisation\<close>

text \<open>The values handed to \<^verbatim>\<open>json.dumps\<close>: strings, lists and dictionaries.\<close>

datatype json = JStr pystr | JList "json list" | JDict "(pystr \<times> json) list"

definition hex_digit :: "nat \<Rightarrow> nat" where
  "hex_digit d = (if d < 10 then 48 + d else 87 + d)"

text \<open>The escapes of \<^verbatim>\<open>json\<close> with \<^verbatim>\<open>ensure_ascii=False\<close>: the quote, the backslash and
  the control characters below \<^verbatim>\<open>0x20\<close>; 92 is the backslash, 34 the quote.\<close>

definition escape_char :: "nat \<Rightarrow> pystr" where
  "escape_char c =
     (if c = 34 then [92, 34]
      else if c = 92 then [92, 92]
      else if c = 8 then 92 # str ''b''
      else if c = 12 then 92 # str ''f''
      else if c = 10 then 92 # str ''n''
      else if c = 13 then 92 # str ''r''
      else if c = 9 then 92 # str ''t''
      else if c < 32 then 92 # str ''u00'' @ [hex_digit (c div 16), hex_digit (c mod 16)]
      else [c])"

definition encode_basestring :: "pystr \<Rightarrow> pystr" where
  "encode_basestring s = [34] @ concat (map escape_char s) @ [34]"

text \<open>\<^verbatim>\<open>json.dumps(v, ensure_ascii=False)\<close>: one line, separators \<^verbatim>\<open>", "\<close> and \<^verbatim>\<open>": "\<close>.\<close>

fun dumps :: "json \<Rightarrow> pystr" where
  "dumps (JStr s) = encode_basestring s"
| "dumps (JList xs) =
     (if xs = [] then str ''[]''
      else str ''['' @ join (str '', '') (map dumps xs) @ str '']'')"
| "dumps (JDict kvs) =
     (if kvs = [] then str ''{}''
      else str ''{'' @ join (str '', '')
             (map (\<lambda>kv. encode_basestring (fst kv) @ str '': '' @ dumps (snd kv)) kvs) @ str ''}'')"

text \<open>\<^verbatim>\<open>json.dumps(v, indent=2, ensure_ascii=False)\<close> at nesting depth \<open>n\<close>.\<close>

fun dumps_indent :: "nat \<Rightarrow> json \<Rightarrow> pystr" where
  "dumps_indent n (JStr s) = encode_basestring s"
| "dumps_indent n (JList xs) =
     (if xs = [] then str ''[]''
      else str ''['' @ [LF] @ replicate (2 * Suc n) 32
           @ join (str '','' @ [LF] @ replicate (2 * Suc n) 32) (map (dumps_indent (Suc n)) xs)
           @ [LF] @ replicate (2 * n) 32 @ str '']'')"
| "dumps_indent n (JDict kvs) =
     (if kvs = [] then str ''{}''
      else str ''{'' @ [LF] @ replicate (2 * Suc n) 32
           @ join (str '','' @ [LF] @ replicate (2 * Suc n) 32)
               (map (\<lambda>kv. encode_basestring (fst kv) @ str '': '' @ dumps_indent (Suc n) (snd kv)) kvs)
           @ [LF] @ replicate (2 * n) 32 @ str ''}'')"

section \<open>Manifest builder\<close>

definition HOMEPAGE :: pystr where
  "HOMEPAGE = str ''https://datadrivenconstruction.io''"

definition AUTHOR :: pystr where
  "AUTHOR = str ''datadrivenconstruction''"

text \<open>The dictionary that \<^verbatim>\<open>build_metadata\<close> serialises.\<close>

definition metadata_dict :: "pystr \<Rightarrow> pystr list \<Rightarrow> pystr \<Rightarrow> requires_info \<Rightarrow> json" where
  "metadata_dict emoji os_list homepage requires_info =
     JDict [(str ''openclaw'',
       JDict ([(str ''emoji'', JStr emoji),
               (str ''os'', JList (map JStr os_list)),
               (str ''homepage'', JStr homepage),
               (str ''requires'', JDict (map (\<lambda>kv. (fst kv, JList (map JStr (snd kv))))
                                          (requires requires_info)))]
              @ (case primaryEnv requires_info of
                   None \<Rightarrow> []
                 | Some p \<Rightarrow> [(str ''primaryEnv'', JStr p)])))]"

definition build_metadata :: "pystr \<Rightarrow> pystr list \<Rightarrow> pystr \<Rightarrow> requires_info \<Rightarrow> pystr" where
  "build_metadata emoji os_list homepage requires_info =
     dumps (metadata_dict emoji os_list homepage requires_info)"

definition build_claw_json :: "pystr \<Rightarrow> pystr \<Rightarrow> pystr list \<Rightarrow> pystr list \<Rightarrow> json" where
  "build_claw_json name description permissions tags =
     JDict [(str ''name'', JStr name),
            (str ''version'', JStr (str ''2.0.0'')),
            (str ''description'', JStr description),
            (str ''author'', JStr AUTHOR),
            (str ''license'', JStr (str ''MIT'')),
            (str ''permissions'', JList (map JStr permissions)),
            (str ''entry'', JStr (str ''instructions.md'')),
            (str ''tags'', JList (map JStr tags)),
            (str ''models'', JList [JStr (str ''claude-*''), JStr (str ''gpt-*'')]),
            (str ''minOpenClawVersion'', JStr (str ''0.8.0''))]"

section \<open>Processing a skill\<close>

text \<open>
  The files of a skill directory that the program reads and writes, as the text that
  \<^verbatim>\<open>read_text\<close> gives and \<^verbatim>\<open>write_text\<close> takes; \<open>None\<close> when the file does not exist.
\<close>

record skill_files =
  skill_md :: "pystr option"
  claw_json :: "pystr option"
  instructions_md :: "pystr option"

text \<open>\<^verbatim>\<open>skill_dir.name\<close>: the last folder name of the path, the name of \<^verbatim>\<open>BASE\<close> itself
  for the empty relative path.\<close>

definition dir_name :: "pystr list \<Rightarrow> pystr" where
  "dir_name parts =
     (if parts = [] then str ''DDC_Skills_for_AI_Agents_in_Construction'' else last parts)"

text \<open>\<^verbatim>\<open>fm.get(key, default)\<close>\<close>

definition dict_get :: "frontmatter \<Rightarrow> pystr \<Rightarrow> pystr \<Rightarrow> pystr" where
  "dict_get fm key dflt = (case map_of fm key of Some v \<Rightarrow> v | None \<Rightarrow> dflt)"

definition skill_name :: "frontmatter \<Rightarrow> pystr list \<Rightarrow> pystr" where
  "skill_name fm parts = dict_get fm (str ''name'') (dict_get fm (str ''slug'') (dir_name parts))"

definition skill_description :: "frontmatter \<Rightarrow> pystr" where
  "skill_description fm = dict_get fm (str ''description'') []"

definition new_fm_lines :: "pystr \<Rightarrow> pystr \<Rightarrow> pystr \<Rightarrow> pystr list" where
  "new_fm_lines name description metadata_str =
     [str ''---'',
      str ''name: '' @ [34] @ name @ [34],
      str ''description: '' @ [34] @ description @ [34],
      str ''homepage: '' @ [34] @ HOMEPAGE @ [34],
      str ''metadata: '' @ metadata_str,
      str ''---'']"

text \<open>The three writes of \<^verbatim>\<open>process_skill\<close>: the header is always rewritten, the manifest
  and the instructions are written when the file does not exist.\<close>

definition update_skill_md :: "pystr \<Rightarrow> pystr \<Rightarrow> pystr \<Rightarrow> pystr \<Rightarrow> skill_files \<Rightarrow> skill_files" where
  "update_skill_md name description metadata_str body fs =
     (let new_content = join [LF] (new_fm_lines name description metadata_str) @ [LF] @ body
      in fs\<lparr>skill_md := Some new_content\<rparr>)"

definition create_claw_json :: "pystr \<Rightarrow> pystr \<Rightarrow> pystr list \<Rightarrow> pystr list \<Rightarrow> skill_files \<Rightarrow> skill_files" where
  "create_claw_json name description permissions tags fs =
     (if claw_json fs = None
      then (let claw_data = build_claw_json name description permissions tags
            in fs\<lparr>claw_json := Some (dumps_indent 0 claw_data)\<rparr>)
      else fs)"

definition create_instructions ::
  "(pystr \<Rightarrow> pystr) \<Rightarrow> pystr \<Rightarrow> pystr \<Rightarrow> pystr \<Rightarrow> skill_files \<Rightarrow> skill_files" where
  "create_instructions ul name description content fs =
     (if instructions_md fs = None
      then (let instructions = generate_instructions ul name description content
            in fs\<lparr>instructions_md := Some instructions\<rparr>)
      else fs)"

text \<open>
  \<open>process_skill ul parts fs\<close>: the skill directory with the relative path \<open>parts\<close> and
  the files \<open>fs\<close>. The result is the returned message (\<open>None\<close> for \<^verbatim>\<open>None\<close>) or the
  exception raised, and the files afterwards.
\<close>

definition process_skill ::
  "(pystr \<Rightarrow> pystr) \<Rightarrow> pystr list \<Rightarrow> skill_files \<Rightarrow> (error + pystr option) \<times> skill_files" where
  "process_skill ul parts fs =
     (case skill_md fs of
        None \<Rightarrow> (Inr None, fs)
      | Some content \<Rightarrow>
         (case parse_frontmatter content of
            (fm_opt, body) \<Rightarrow>
              (case fm_opt of
                 None \<Rightarrow> (Inr (Some (str ''SKIP (no frontmatter): '' @ dir_name parts)), fs)
               | Some fm \<Rightarrow>
                  if fm = [] then (Inr (Some (str ''SKIP (no frontmatter): '' @ dir_name parts)), fs)
                  else if map_of fm (str ''homepage'') \<noteq> None
                    then (Inr (Some (str ''SKIP (already updated): '' @ dir_name parts)), fs)
                  else
                    (let name = skill_name fm parts;
                         description = skill_description fm
                     in case get_subcategory parts of
                          Inl e \<Rightarrow> (Inl e, fs)
                        | Inr subcat \<Rightarrow>
                       (case get_top_category parts of
                          Inl e \<Rightarrow> (Inl e, fs)
                        | Inr topcat \<Rightarrow>
                       (case determine_emoji parts name of
                          Inl e \<Rightarrow> (Inl e, fs)
                        | Inr emoji \<Rightarrow>
                       (let os_list = determine_os content
                        in case determine_requires content of
                          Inl e \<Rightarrow> (Inl e, fs)
                        | Inr requires_info \<Rightarrow>
                           (let permissions = determine_permissions content;
                                tags = determine_tags ul name description subcat topcat;
                                metadata_str = build_metadata emoji os_list HOMEPAGE requires_info;
                                fs = update_skill_md name description metadata_str body fs;
                                fs = create_claw_json name description permissions tags fs;
                                fs = create_instructions ul name description content fs
                            in (Inr (Some (str ''OK: '' @ name)), fs)))))))))"

section \<open>An example skill\<close>

text \<open>A skill directory \<^verbatim>\<open>5_DDC_Innovative/x\<close> whose \<^verbatim>\<open>SKILL.md\<close> has the header
  \<^verbatim>\<open>name: x\<close>, an empty line after the header and the body \<^verbatim>\<open>Body\<close>, and no other file.\<close>

definition example_path :: "pystr list" where
  "example_path = [str ''5_DDC_Innovative'', str ''x'']"

definition example_content :: pystr where
  "example_content =
     str ''---'' @ [LF] @ str ''name: x'' @ [LF] @ str ''---'' @ [LF] @ [LF] @ str ''Body'' @ [LF]"

definition example_files :: skill_files where
  "example_files = \<lparr>skill_md = Some example_content, claw_json = None, instructions_md = None\<rparr>"

text \<open>The same directory with a manifest and an instruction file already there.\<close>

definition example_files_kept :: skill_files where
  "example_files_kept =
     \<lparr>skill_md = Some example_content, claw_json = Some (str ''{}''),
      instructions_md = Some (str ''keep'')\<rparr>"

text \<open>A directory whose \<^verbatim>\<open>SKILL.md\<close> has the key \<^verbatim>\<open>homepage\<close> in its header already.\<close>

definition example_files_updated :: skill_files where
  "example_files_updated =
     \<lparr>skill_md = Some (str ''---'' @ [LF] @ str ''homepage: h'' @ [LF] @ str ''---'' @ [LF]),
      claw_json = None, instructions_md = None\<rparr>"

section \<open>Properties of the classifier\<close>

subsection \<open>Substring tests\<close>

lemma contains_iff_sublist: "contains kw s \<longleftrightarrow> sublist kw s"
  by (induction s) (auto simp: sublist_Cons_right)

lemma any_in_iff: "any_in kws s \<longleftrightarrow> (\<exists>kw\<in>set kws. sublist kw s)"
  by (simp add: any_in_def list_ex_iff contains_iff_sublist)

text \<open>The rewrite rules that decide a substring test on literal text.\<close>

lemmas eval_contains =
  contains.simps Cons_prefix_Cons Nil_prefix prefix_Nil numeral_eq_iff num.simps
  simp_thms list.simps if_True if_False any_in_def list_ex_Nil_iff list_ex_Cons_iff

subsection \<open>Operating systems\<close>

lemma determine_os_loop_eq:
  "determine_os_loop kws content =
     (if any_in kws content then [str ''win32'']
      else [str ''darwin'', str ''linux'', str ''win32''])"
  by (induction kws) (auto simp: any_in_def contains_iff_sublist)

lemma win32_example_text: "any_in WIN32_KEYWORDS (str ''Export the Revit model to model.rvt'')"
  apply (simp add: str_def WIN32_KEYWORDS_def del: contains.simps)
  apply (simp only: eval_contains)
  done

lemma plain_example_text: "\<not> any_in WIN32_KEYWORDS (str ''Estimate material costs'')"
  apply (simp add: str_def WIN32_KEYWORDS_def del: contains.simps)
  apply (simp only: eval_contains)
  done

text \<open>
  Claim C4. For every raw text, \<open>determine_os\<close> returns exactly \<open>["win32"]\<close> if one of
  the markers of \<open>WIN32_KEYWORDS\<close> occurs in the text as a substring, and exactly
  \<open>["darwin", "linux", "win32"]\<close> otherwise.
\<close>

theorem determine_os_markers:
  "determine_os content =
     (if (\<exists>kw\<in>set WIN32_KEYWORDS. sublist kw content)
      then [str ''win32'']
      else [str ''darwin'', str ''linux'', str ''win32''])"
  by (simp add: determine_os_def determine_os_loop_eq any_in_iff)

theorem determine_os_markers_witness:
  "determine_os (str ''Export the Revit model to model.rvt'') = [str ''win32'']
   \<and> determine_os (str ''Estimate material costs'')
       = [str ''darwin'', str ''linux'', str ''win32'']"
  using determine_os_markers [of "str ''Export the Revit model to model.rvt''"]
        determine_os_markers [of "str ''Estimate material costs''"]
        win32_example_text plain_example_text
  by (simp only: any_in_iff if_True if_False simp_thms)

subsection \<open>Tags\<close>

lemma tags_loop_eq:
  "tags_loop tk combined tags = tags @ map fst (filter (\<lambda>p. any_in (snd p) combined) tk)"
  by (induction tk combined tags rule: tags_loop.induct) auto

lemma tag_names_distinct: "distinct (str ''construction'' # map fst tag_keywords)"
  by (simp add: tag_keywords_def str_def)

text \<open>
  Claim C3. For every name, description and sub-category (and top category), the list
  of tags starts with \<open>"construction"\<close>, has at most five entries and has no entry twice.
\<close>

theorem determine_tags_shape:
  "determine_tags ul name description subcat topcat \<noteq> []
   \<and> hd (determine_tags ul name description subcat topcat) = str ''construction''
   \<and> length (determine_tags ul name description subcat topcat) \<le> 5
   \<and> distinct (determine_tags ul name description subcat topcat)"
proof -
  define combined where "combined = lower ul (name @ str '' '' @ description @ str '' '' @ subcat)"
  define found where "found = map fst (filter (\<lambda>p. any_in (snd p) combined) tag_keywords)"
  have tags: "determine_tags ul name description subcat topcat
                = take 5 (str ''construction'' # found)"
    by (simp add: determine_tags_def Let_def tags_loop_eq combined_def found_def)
  have "distinct (str ''construction'' # map fst tag_keywords)"
    by (rule tag_names_distinct)
  then have "distinct (str ''construction'' # found)"
    unfolding found_def by (auto simp: distinct_map_filter)
  then have "distinct (take 5 (str ''construction'' # found))"
    by (rule distinct_take)
  moreover have "take 5 (str ''construction'' # found) = str ''construction'' # take 4 found"
    by (simp add: take_Cons')
  ultimately show ?thesis
    unfolding tags by simp
qed

subsection \<open>Permissions\<close>

lemma network_example_text: "any_in NETWORK_KEYWORDS (str ''r = requests.get(url, key=API_KEY)'')"
  apply (simp add: str_def NETWORK_KEYWORDS_def del: contains.simps)
  apply (simp only: eval_contains)
  done

lemma plain_example_no_network: "\<not> any_in NETWORK_KEYWORDS (str ''Estimate material costs'')"
  apply (simp add: str_def NETWORK_KEYWORDS_def del: contains.simps)
  apply (simp only: eval_contains)
  done

lemma permission_names: "str ''filesystem'' \<noteq> str ''network''"
  by (simp add: str_def)

text \<open>
  Claim C6. For every raw text, the permissions start with \<open>"filesystem"\<close>, and they
  contain \<open>"network"\<close> if and only if a marker of \<open>NETWORK_KEYWORDS\<close> occurs in the text.
\<close>

theorem determine_permissions_network:
  "determine_permissions content \<noteq> []
   \<and> hd (determine_permissions content) = str ''filesystem''
   \<and> (str ''network'' \<in> set (determine_permissions content)
        \<longleftrightarrow> (\<exists>kw\<in>set NETWORK_KEYWORDS. sublist kw content))"
  using permission_names by (auto simp: determine_permissions_def Let_def any_in_iff)

theorem determine_permissions_network_witness:
  "str ''network'' \<in> set (determine_permissions (str ''r = requests.get(url, key=API_KEY)''))
   \<and> str ''network'' \<notin> set (determine_permissions (str ''Estimate material costs''))"
  using determine_permissions_network [of "str ''r = requests.get(url, key=API_KEY)''"]
        determine_permissions_network [of "str ''Estimate material costs''"]
        network_example_text plain_example_no_network
  by (simp only: any_in_iff simp_thms)

subsection \<open>Emoji\<close>

lemma name_emoji_first_match:
  "name_emoji name =
     (case find (\<lambda>g. any_in (fst g) name) name_emoji_groups of
        Some g \<Rightarrow> snd g | None \<Rightarrow> [0x1F527])"
  by (simp add: name_emoji_def name_emoji_groups_def)
lemma conflict_example_name: "name_emoji (str ''schedule-gantt'') = [0x1F4C5]"
  apply (simp add: name_emoji_def str_def del: contains.simps)
  apply (simp only: eval_contains)
  done

lemma conflict_example_subcat:
  "map_of EMOJI_MAP (str ''Cost-Management'') = Some [0x1F4B0]"
  by (simp add: EMOJI_MAP_def str_def)

text \<open>
  Claim C5. For every skill path and name, the emoji is the entry of the sub-category in
  \<open>EMOJI_MAP\<close>; without one, the entry of the top category; without one, the emoji of
  the first of the seven keyword groups with a keyword in the name; and the tool emoji
  otherwise. So an entry of the sub-category wins over what the name suggests.
\<close>

theorem determine_emoji_precedence:
  "length name_emoji_groups = 7
   \<and> (get_subcategory parts = Inr subcat \<and> get_top_category parts = Inr topcat \<longrightarrow>
       determine_emoji parts name =
         Inr (case map_of EMOJI_MAP subcat of
                Some e \<Rightarrow> e
              | None \<Rightarrow>
                 (case map_of EMOJI_MAP topcat of
                    Some e \<Rightarrow> e
                  | None \<Rightarrow>
                     (case find (\<lambda>g. any_in (fst g) name) name_emoji_groups of
                        Some g \<Rightarrow> snd g
                      | None \<Rightarrow> [0x1F527]))))"
  by (auto simp: determine_emoji_def name_emoji_first_match name_emoji_groups_def
           split: option.splits)

theorem determine_emoji_precedence_witness:
  "determine_emoji [str ''1_DDC_Toolkit'', str ''Cost-Management'', str ''schedule-gantt'']
       (str ''schedule-gantt'') = Inr [0x1F4B0]
   \<and> name_emoji (str ''schedule-gantt'') = [0x1F4C5]"
proof -
  have sub: "get_subcategory [str ''1_DDC_Toolkit'', str ''Cost-Management'', str ''schedule-gantt'']
               = Inr (str ''Cost-Management'')"
    by (simp add: get_subcategory_def)
  have top: "get_top_category [str ''1_DDC_Toolkit'', str ''Cost-Management'', str ''schedule-gantt'']
               = Inr (str ''1_DDC_Toolkit'')"
    by (simp add: get_top_category_def)
  from determine_emoji_precedence
         [of "[str ''1_DDC_Toolkit'', str ''Cost-Management'', str ''schedule-gantt'']"
             "str ''Cost-Management''" "str ''1_DDC_Toolkit''" "str ''schedule-gantt''"]
       sub top
  have "determine_emoji [str ''1_DDC_Toolkit'', str ''Cost-Management'', str ''schedule-gantt'']
          (str ''schedule-gantt'') = Inr [0x1F4B0]"
    by (simp only: conflict_example_subcat option.case simp_thms)
  then show ?thesis
    using conflict_example_name by simp
qed

subsection \<open>Requirements\<close>

lemma env_loop_eq:
  "\<forall>p\<in>set tbl. fst p \<noteq> [] \<Longrightarrow>
   env_loop tbl content (env, pe) =
     (env @ map fst (filter (\<lambda>p. any_in (snd p) content) tbl),
      if not_env pe
      then (case map fst (filter (\<lambda>p. any_in (snd p) content) tbl) of
              [] \<Rightarrow> pe | n # _ \<Rightarrow> Some n)
      else pe)"
proof (induction tbl arbitrary: env pe)
  case Nil
  then show ?case by simp
next
  case (Cons p tbl)
  obtain n kws where p: "p = (n, kws)" by (cases p)
  from Cons.prems p have n: "n \<noteq> []" and rest: "\<forall>p\<in>set tbl. fst p \<noteq> []" by auto
  show ?case
    using n by (simp add: p Cons.IH [OF rest] not_env_def split: option.splits)
qed

lemma env_names_nonempty: "\<forall>p\<in>set ENV_REQUIREMENTS. fst p \<noteq> []"
  by (simp add: ENV_REQUIREMENTS_def str_def)

lemma python3_keywords: "\<exists>kws. lookup BIN_REQUIREMENTS (str ''python3'') = Inr kws"
  by (simp add: lookup_def BIN_REQUIREMENTS_def)

lemma requires_keys: "str ''bins'' \<noteq> str ''env''" "str ''anyBins'' \<noteq> str ''env''"
  by (simp_all add: str_def)
lemma env_example:
  "map fst (filter (\<lambda>p. any_in (snd p) (str ''c = OpenAI(); q = QdrantClient(url)'')) ENV_REQUIREMENTS)
     = [str ''OPENAI_API_KEY'', str ''QDRANT_URL'']"
  apply (simp add: str_def ENV_REQUIREMENTS_def del: contains.simps)
  apply (simp only: eval_contains filter.simps fst_conv snd_conv)
  done

lemma env_example_none:
  "map fst (filter (\<lambda>p. any_in (snd p) (str ''Estimate material costs'')) ENV_REQUIREMENTS) = []"
  apply (simp add: str_def ENV_REQUIREMENTS_def del: contains.simps)
  apply (simp only: eval_contains filter.simps fst_conv snd_conv)
  done

text \<open>
  Claim C7. For every raw text, \<open>determine_requires\<close> returns; the key \<open>env\<close> holds the
  variables of \<open>ENV_REQUIREMENTS\<close> with a keyword in the text, in the order of the table,
  and is absent when there is none; \<open>primaryEnv\<close> is the first of them, and is absent
  when there is none, also in the dictionary that \<open>build_metadata\<close> serialises.
\<close>

theorem determine_requires_env:
  "\<exists>r. determine_requires content = Inr r
     \<and> map_of (requires r) (str ''env'')
         = (let matched = map fst (filter (\<lambda>p. \<exists>kw\<in>set (snd p). sublist kw content) ENV_REQUIREMENTS)
            in if matched = [] then None else Some matched)
     \<and> primaryEnv r
         = (case map fst (filter (\<lambda>p. \<exists>kw\<in>set (snd p). sublist kw content) ENV_REQUIREMENTS) of
              [] \<Rightarrow> None | n # _ \<Rightarrow> Some n)
     \<and> (\<exists>fields. metadata_dict emoji os_list homepage r = JDict [(str ''openclaw'', JDict fields)]
           \<and> map_of fields (str ''primaryEnv'') = map_option JStr (primaryEnv r))"
proof -
  obtain kws where kws: "lookup BIN_REQUIREMENTS (str ''python3'') = Inr kws"
    using python3_keywords by blast
  define matched where "matched = map fst (filter (\<lambda>p. any_in (snd p) content) ENV_REQUIREMENTS)"
  have loop: "env_loop ENV_REQUIREMENTS content ([], None)
                = (matched, case matched of [] \<Rightarrow> None | n # _ \<Rightarrow> Some n)"
    by (simp add: env_loop_eq [OF env_names_nonempty] matched_def not_env_def)
  have "\<forall>n\<in>set matched. n \<noteq> []"
    using env_names_nonempty by (auto simp: matched_def)
  then have ne: "matched \<noteq> [] \<Longrightarrow> \<not> not_env (case matched of [] \<Rightarrow> None | n # _ \<Rightarrow> Some n)"
    by (cases matched) (auto simp: not_env_def)
  have fields: "str ''emoji'' \<noteq> str ''primaryEnv''" "str ''os'' \<noteq> str ''primaryEnv''"
    "str ''homepage'' \<noteq> str ''primaryEnv''" "str ''requires'' \<noteq> str ''primaryEnv''"
    by (simp_all add: str_def)
  show ?thesis
    unfolding any_in_iff [symmetric] matched_def [symmetric]
    using ne fields requires_keys
    by (cases matched)
       (auto simp: determine_requires_def kws loop Let_def metadata_dict_def not_env_def
             split: option.splits)
qed

theorem determine_requires_env_witness:
  "(\<exists>r. determine_requires (str ''c = OpenAI(); q = QdrantClient(url)'') = Inr r
      \<and> map_of (requires r) (str ''env'') = Some [str ''OPENAI_API_KEY'', str ''QDRANT_URL'']
      \<and> primaryEnv r = Some (str ''OPENAI_API_KEY''))
   \<and> (\<exists>r. determine_requires (str ''Estimate material costs'') = Inr r
      \<and> map_of (requires r) (str ''env'') = None
      \<and> primaryEnv r = None)"
  using determine_requires_env [of "str ''c = OpenAI(); q = QdrantClient(url)''" "[]" "[]" "[]"]
        determine_requires_env [of "str ''Estimate material costs''" "[]" "[]" "[]"]
  unfolding any_in_iff [symmetric] env_example env_example_none
  by (auto simp: Let_def)

section \<open>Properties of processing\<close>

subsection \<open>Existing files\<close>

lemma claw_json_kept:
  "claw_json fs = Some m \<Longrightarrow>
   claw_json (create_instructions ul n d c (create_claw_json n d p t (update_skill_md n d md b fs))) = Some m"
  by (simp add: create_instructions_def create_claw_json_def update_skill_md_def Let_def)

lemma instructions_md_kept:
  "instructions_md fs = Some i \<Longrightarrow>
   instructions_md (create_instructions ul n d c (create_claw_json n d p t (update_skill_md n d md b fs))) = Some i"
  by (simp add: create_instructions_def create_claw_json_def update_skill_md_def Let_def)

lemma process_skill_claw_json:
  "claw_json fs = Some m \<Longrightarrow> claw_json (snd (process_skill ul parts fs)) = Some m"
  unfolding process_skill_def
  by (auto simp: Let_def claw_json_kept split: option.splits prod.splits sum.splits)

lemma process_skill_instructions_md:
  "instructions_md fs = Some i \<Longrightarrow> instructions_md (snd (process_skill ul parts fs)) = Some i"
  unfolding process_skill_def
  by (auto simp: Let_def instructions_md_kept split: option.splits prod.splits sum.splits)

text \<open>
  Claim C9. A manifest that exists before a run of \<open>process_skill\<close> is the same text
  after it, whatever the run does; and so is an existing instruction file.
\<close>

theorem existing_files_kept:
  "(claw_json fs = Some m \<longrightarrow> claw_json (snd (process_skill ul parts fs)) = Some m)
   \<and> (instructions_md fs = Some i \<longrightarrow> instructions_md (snd (process_skill ul parts fs)) = Some i)"
  by (simp add: process_skill_claw_json process_skill_instructions_md)

subsection \<open>Instructions\<close>

text \<open>
  Claim C10. The instruction text depends on the name and the description only: the raw
  text handed to \<open>generate_instructions\<close> does not change it, nor the instruction file
  that \<open>process_skill\<close> writes from it.
\<close>

theorem generate_instructions_ignores_content:
  "generate_instructions ul name description content
     = generate_instructions ul name description content'
   \<and> instructions_md (create_instructions ul name description content fs)
     = instructions_md (create_instructions ul name description content' fs)"
  by (simp add: generate_instructions_def create_instructions_def)

subsection \<open>The branches of processing\<close>

lemma skip_is_not_ok:
  "str ''SKIP (no frontmatter): '' @ d \<noteq> str ''OK: '' @ n"
  "str ''SKIP (already updated): '' @ d \<noteq> str ''OK: '' @ n"
  by (simp_all add: str_def)

lemma process_skill_no_file:
  "skill_md fs = None \<Longrightarrow> process_skill ul parts fs = (Inr None, fs)"
  by (simp only: process_skill_def option.case)

lemma process_skill_no_frontmatter:
  assumes "skill_md fs = Some content" and "parse_frontmatter content = (fm_opt, body)"
    and "fm_opt = None \<or> fm_opt = Some []"
  shows "process_skill ul parts fs
           = (Inr (Some (str ''SKIP (no frontmatter): '' @ dir_name parts)), fs)"
  using assms(3)
  by (auto simp only: process_skill_def assms(1,2) option.case prod.case if_True simp_thms)

lemma process_skill_already_updated:
  assumes "skill_md fs = Some content" and "parse_frontmatter content = (Some fm, body)"
    and "map_of fm (str ''homepage'') \<noteq> None"
  shows "process_skill ul parts fs
           = (Inr (Some (str ''SKIP (already updated): '' @ dir_name parts)), fs)"
proof -
  from assms(3) have "fm \<noteq> []" by auto
  then show ?thesis
    by (simp only: process_skill_def assms option.case prod.case if_True if_False simp_thms
          not_False_eq_True)
qed

lemma process_skill_no_path:
  assumes "skill_md fs = Some content" and "parse_frontmatter content = (Some fm, body)"
    and "fm \<noteq> []" and "map_of fm (str ''homepage'') = None"
  shows "process_skill ul [] fs = (Inl IndexError, fs)"
proof -
  have "get_subcategory [] = Inl IndexError"
    by (simp add: get_subcategory_def)
  then show ?thesis
    by (simp only: process_skill_def assms option.case prod.case if_False simp_thms Let_def sum.case)
qed

lemma process_skill_ok_inv:
  assumes ok: "fst (process_skill ul parts fs) = Inr (Some (str ''OK: '' @ name))"
  shows "\<exists>content fm body. skill_md fs = Some content
           \<and> parse_frontmatter content = (Some fm, body)
           \<and> fm \<noteq> [] \<and> map_of fm (str ''homepage'') = None \<and> parts \<noteq> []"
proof (cases "skill_md fs")
  case None
  with ok show ?thesis by (simp add: process_skill_no_file)
next
  case (Some content)
  obtain fm_opt body where p: "parse_frontmatter content = (fm_opt, body)"
    by (cases "parse_frontmatter content")
  have nf: "\<not> (fm_opt = None \<or> fm_opt = Some [])"
  proof
    assume "fm_opt = None \<or> fm_opt = Some []"
    from process_skill_no_frontmatter [OF Some p this, of ul parts] ok
    show False by (simp add: skip_is_not_ok)
  qed
  then obtain fm where fm: "fm_opt = Some fm" "fm \<noteq> []"
    by (cases fm_opt) auto
  have hp: "map_of fm (str ''homepage'') = None"
  proof (rule ccontr)
    assume "map_of fm (str ''homepage'') \<noteq> None"
    from process_skill_already_updated [OF Some p [unfolded fm(1)] this, of ul parts] ok
    show False by (simp add: skip_is_not_ok)
  qed
  have "parts \<noteq> []"
  proof
    assume "parts = []"
    with process_skill_no_path [OF Some p [unfolded fm(1)] fm(2) hp, of ul] ok
    show False by simp
  qed
  with Some p fm hp show ?thesis by blast
qed

lemma determine_requires_total: "\<exists>r. determine_requires content = Inr r"
proof -
  obtain kws where kws: "lookup BIN_REQUIREMENTS (str ''python3'') = Inr kws"
    using python3_keywords by blast
  show ?thesis
    by (simp add: determine_requires_def kws Let_def split: prod.splits)
qed

lemma categories_total:
  "parts \<noteq> [] \<Longrightarrow>
   \<exists>subcat topcat emoji. get_subcategory parts = Inr subcat \<and> get_top_category parts = Inr topcat
      \<and> determine_emoji parts name = Inr emoji"
  by (cases parts)
     (auto simp: get_subcategory_def get_top_category_def determine_emoji_def split: option.splits)

lemma process_skill_run:
  assumes md: "skill_md fs = Some content" and p: "parse_frontmatter content = (Some fm, body)"
    and ne: "fm \<noteq> []" and hp: "map_of fm (str ''homepage'') = None"
    and sub: "get_subcategory parts = Inr subcat"
    and top: "get_top_category parts = Inr topcat"
    and emo: "determine_emoji parts (skill_name fm parts) = Inr emoji"
    and r: "determine_requires content = Inr r"
  shows "process_skill ul parts fs =
             (Inr (Some (str ''OK: '' @ skill_name fm parts)),
              create_instructions ul (skill_name fm parts) (skill_description fm) content
                (create_claw_json (skill_name fm parts) (skill_description fm)
                  (determine_permissions content)
                  (determine_tags ul (skill_name fm parts) (skill_description fm) subcat topcat)
                  (update_skill_md (skill_name fm parts) (skill_description fm)
                     (build_metadata emoji (determine_os content) HOMEPAGE r) body fs)))"
  apply (simp only: process_skill_def md p option.case prod.case)
  apply (simp only: ne hp if_False simp_thms)
  apply (simp only: Let_def sub top emo r sum.case)
  done

text \<open>A skill with a header, without the key \<open>homepage\<close> and below \<^verbatim>\<open>BASE\<close> is processed:
  the message is \<open>OK\<close> and the new \<^verbatim>\<open>SKILL.md\<close> is the new header before the body.\<close>

lemma process_skill_ok:
  assumes "skill_md fs = Some content" and "parse_frontmatter content = (Some fm, body)"
    and "fm \<noteq> []" and "map_of fm (str ''homepage'') = None" and "parts \<noteq> []"
  shows "fst (process_skill ul parts fs) = Inr (Some (str ''OK: '' @ skill_name fm parts))"
    and "\<exists>emoji os_list r.
           skill_md (snd (process_skill ul parts fs))
             = Some (join [LF] (new_fm_lines (skill_name fm parts) (skill_description fm)
                                  (build_metadata emoji os_list HOMEPAGE r)) @ [LF] @ body)"
proof -
  obtain subcat topcat emoji where cats: "get_subcategory parts = Inr subcat"
      "get_top_category parts = Inr topcat"
      "determine_emoji parts (skill_name fm parts) = Inr emoji"
    using categories_total [OF assms(5)] by blast
  obtain r where r: "determine_requires content = Inr r"
    using determine_requires_total by blast
  note run = process_skill_run [OF assms(1-4) cats r, of ul]
  show "fst (process_skill ul parts fs) = Inr (Some (str ''OK: '' @ skill_name fm parts))"
    by (simp add: run)
  have "skill_md (snd (process_skill ul parts fs))
          = Some (join [LF] (new_fm_lines (skill_name fm parts) (skill_description fm)
                    (build_metadata emoji (determine_os content) HOMEPAGE r)) @ [LF] @ body)"
    by (simp add: run create_instructions_def create_claw_json_def update_skill_md_def Let_def)
  then show "\<exists>emoji os_list r.
           skill_md (snd (process_skill ul parts fs))
             = Some (join [LF] (new_fm_lines (skill_name fm parts) (skill_description fm)
                                  (build_metadata emoji os_list HOMEPAGE r)) @ [LF] @ body)"
    by blast
qed

subsection \<open>Single lines\<close>

lemma escape_char_no_LF: "LF \<notin> set (escape_char c)"
  by (auto simp: escape_char_def LF_def str_def hex_digit_def)

lemma encode_basestring_no_LF: "LF \<notin> set (encode_basestring s)"
  by (auto simp: encode_basestring_def escape_char_no_LF) (simp add: LF_def)

lemma join_no_LF:
  "LF \<notin> set sep \<Longrightarrow> \<forall>x\<in>set xs. LF \<notin> set x \<Longrightarrow> LF \<notin> set (join sep xs)"
  by (induction sep xs rule: join.induct) auto

lemma json_separators_no_LF:
  "LF \<notin> set (str '', '')" "LF \<notin> set (str '': '')" "LF \<notin> set (str ''[]'')"
  "LF \<notin> set (str ''{}'')" "LF \<notin> set (str ''['')" "LF \<notin> set (str '']'')"
  "LF \<notin> set (str ''{'')" "LF \<notin> set (str ''}'')"
  by (simp_all add: str_def LF_def)

lemma dumps_no_LF: "LF \<notin> set (dumps j)"
proof (induction j)
  case (JStr s)
  then show ?case by (simp add: encode_basestring_no_LF)
next
  case (JList xs)
  then have "\<forall>x\<in>set (map dumps xs). LF \<notin> set x" by auto
  then show ?case
    using join_no_LF [OF json_separators_no_LF(1), of "map dumps xs"]
    by (simp add: json_separators_no_LF)
next
  case (JDict kvs)
  then have "\<forall>x\<in>set (map (\<lambda>kv. encode_basestring (fst kv) @ str '': '' @ dumps (snd kv)) kvs).
               LF \<notin> set x"
    by (auto simp: encode_basestring_no_LF json_separators_no_LF)
  then show ?case
    using join_no_LF [OF json_separators_no_LF(1),
            of "map (\<lambda>kv. encode_basestring (fst kv) @ str '': '' @ dumps (snd kv)) kvs"]
    by (simp add: json_separators_no_LF)
qed

lemma build_metadata_no_LF: "LF \<notin> set (build_metadata emoji os_list homepage requires_info)"
  by (simp add: build_metadata_def dumps_no_LF)

lemma split_on_no_sep: "l \<in> set (split_on sep s) \<Longrightarrow> sep \<notin> set l"
  by (induction s arbitrary: l) (auto split: if_splits list.splits)

lemma set_strip_where: "set (strip_where P s) \<subseteq> set s"
proof
  fix x
  assume "x \<in> set (strip_where P s)"
  then have "x \<in> set (dropWhile P (rev (dropWhile P s)))"
    by (simp add: strip_where_def)
  then have "x \<in> set (rev (dropWhile P s))"
    by (rule set_dropWhileD)
  then have "x \<in> set (dropWhile P s)"
    by simp
  then show "x \<in> set s"
    by (rule set_dropWhileD)
qed

lemma set_strip: "set (strip s) \<subseteq> set s" "set (strip_char c s) \<subseteq> set s"
  by (simp_all add: strip_def strip_char_def set_strip_where)

lemma fm_loop_values:
  "\<forall>l\<in>set lines. LF \<notin> set l \<Longrightarrow> \<forall>k v. map_of fm k = Some v \<longrightarrow> LF \<notin> set v \<Longrightarrow>
   map_of (fm_loop lines fm) k = Some v \<Longrightarrow> LF \<notin> set v"
proof (induction lines arbitrary: fm)
  case Nil
  then show ?case by simp
next
  case (Cons line lines)
  define key where "key = strip (takeWhile (\<lambda>c. c \<noteq> COLON) (strip line))"
  define val where "val = strip_char 39 (strip_char 34 (strip (drop 1 (dropWhile (\<lambda>c. c \<noteq> COLON) (strip line)))))"
  have "set val \<subseteq> set (strip (drop 1 (dropWhile (\<lambda>c. c \<noteq> COLON) (strip line))))"
    unfolding val_def by (rule subset_trans [OF set_strip(2) set_strip(2)])
  also have "\<dots> \<subseteq> set (drop 1 (dropWhile (\<lambda>c. c \<noteq> COLON) (strip line)))"
    by (rule set_strip(1))
  also have "\<dots> \<subseteq> set (dropWhile (\<lambda>c. c \<noteq> COLON) (strip line))"
    by (rule set_drop_subset)
  also have "\<dots> \<subseteq> set (strip line)"
    by (auto dest: set_dropWhileD)
  also have "\<dots> \<subseteq> set line"
    by (rule set_strip(1))
  finally have "set val \<subseteq> set line" .
  with Cons.prems(1) have val: "LF \<notin> set val" by auto
  have upd: "\<forall>k v. map_of (AList.update key val fm) k = Some v \<longrightarrow> LF \<notin> set v"
    using Cons.prems(2) val by (auto simp: update_conv')
  show ?case
  proof (cases "COLON \<in> set (strip line)")
    case True
    then have "fm_loop (line # lines) fm = fm_loop lines (AList.update key val fm)"
      by (simp add: Let_def key_def val_def)
    with Cons.IH [OF _ upd] Cons.prems show ?thesis by auto
  next
    case False
    then have "fm_loop (line # lines) fm = fm_loop lines fm"
      by (simp add: Let_def)
    with Cons.IH [OF _ Cons.prems(2)] Cons.prems show ?thesis by auto
  qed
qed

lemma parse_frontmatter_values:
  assumes "parse_frontmatter content = (Some fm, body)" and "map_of fm k = Some v"
  shows "LF \<notin> set v"
proof -
  from assms(1) obtain fm_text where "fm = fm_loop (split_on LF fm_text) []"
    by (auto simp: parse_frontmatter_def split: option.splits prod.splits)
  with assms(2) fm_loop_values [of "split_on LF fm_text" "[]" k v] show ?thesis
    by (auto simp: split_on_no_sep)
qed

lemma skill_description_no_LF:
  assumes "parse_frontmatter content = (Some fm, body)"
  shows "LF \<notin> set (skill_description fm)"
  using parse_frontmatter_values [OF assms, of "str ''description''"]
  by (cases "map_of fm (str ''description'')") (simp_all add: skill_description_def dict_get_def)

lemma skill_name_no_LF:
  assumes "parse_frontmatter content = (Some fm, body)" and "LF \<notin> set (dir_name parts)"
  shows "LF \<notin> set (skill_name fm parts)"
  using parse_frontmatter_values [OF assms(1), of "str ''name''"]
        parse_frontmatter_values [OF assms(1), of "str ''slug''"] assms(2)
  by (cases "map_of fm (str ''name'')"; cases "map_of fm (str ''slug'')")
     (simp_all add: skill_name_def dict_get_def)

subsection \<open>The header pattern on a rewritten header\<close>

lemma closer_at_needs_LF: "c \<noteq> LF \<Longrightarrow> closer_at (c # s) = None"
  by (simp add: closer_at_def)

lemma closer_at_needs_dashes: "\<not> prefix (str ''---'') t \<Longrightarrow> closer_at (LF # t) = None"
  by (simp add: closer_at_def)

lemma find_closer_skip_line:
  "LF \<notin> set l \<Longrightarrow> find_closer (l @ t) = map_option (\<lambda>(g, b). (l @ g, b)) (find_closer t)"
proof (induction l)
  case Nil
  then show ?case by (simp add: option.map_ident case_prod_unfold)
next
  case (Cons c l)
  then show ?case
    by (simp add: closer_at_needs_LF split: option.splits)
qed

lemma find_closer_skip_LF:
  "\<not> prefix (str ''---'') t \<Longrightarrow>
   find_closer (LF # t) = map_option (\<lambda>(g, b). (LF # g, b)) (find_closer t)"
  by (simp add: closer_at_needs_dashes split: option.splits)

lemma closer_at_delimiter:
  "closer_at (LF # str ''---'' @ LF # body)
     = Some (rev (takeWhile (\<lambda>c. c \<noteq> LF) (rev (LF # takeWhile is_space body)))
             @ dropWhile is_space body)"
  by (simp add: closer_at_def str_def is_space_def LF_def)

lemma find_closer_delimiter:
  "\<exists>b. find_closer (LF # str ''---'' @ LF # body) = Some ([], b)"
  by (simp add: closer_at_delimiter del: closer_at_def)

lemma header_lines_start:
  "\<not> prefix (str ''---'') (str ''description: '' @ x)"
  "\<not> prefix (str ''---'') (str ''homepage: '' @ x)"
  "\<not> prefix (str ''---'') (str ''metadata: '' @ x)"
  by (simp_all add: str_def)

lemma find_closer_new_header:
  assumes "LF \<notin> set n" and "LF \<notin> set d" and "LF \<notin> set h" and "LF \<notin> set m"
  shows "\<exists>b. find_closer (str ''name: '' @ n @ LF # str ''description: '' @ d @ LF #
                 str ''homepage: '' @ h @ LF # str ''metadata: '' @ m @
                 LF # str ''---'' @ LF # body)
              = Some (str ''name: '' @ n @ LF # str ''description: '' @ d @ LF #
                      str ''homepage: '' @ h @ LF # str ''metadata: '' @ m, b)"
proof -
  obtain b where b: "find_closer (LF # str ''---'' @ LF # body) = Some ([], b)"
    using find_closer_delimiter by blast
  have lits: "LF \<notin> set (str ''name: '')" "LF \<notin> set (str ''description: '')"
    "LF \<notin> set (str ''homepage: '')" "LF \<notin> set (str ''metadata: '')"
    by (simp_all add: str_def LF_def)
  have 4: "find_closer ((str ''metadata: '' @ m) @ LF # str ''---'' @ LF # body)
             = Some (str ''metadata: '' @ m, b)"
    using assms lits by (subst find_closer_skip_line) (simp_all add: b del: find_closer.simps)
  have 3: "find_closer ((str ''homepage: '' @ h) @ LF # str ''metadata: '' @ m @
                 LF # str ''---'' @ LF # body)
             = Some (str ''homepage: '' @ h @ LF # str ''metadata: '' @ m, b)"
    using assms lits 4
    by (subst find_closer_skip_line)
       (simp_all add: find_closer_skip_LF header_lines_start del: find_closer.simps)
  have 2: "find_closer ((str ''description: '' @ d) @ LF # str ''homepage: '' @ h @ LF #
                 str ''metadata: '' @ m @ LF # str ''---'' @ LF # body)
             = Some (str ''description: '' @ d @ LF # str ''homepage: '' @ h @ LF #
                     str ''metadata: '' @ m, b)"
    using assms lits 3
    by (subst find_closer_skip_line)
       (simp_all add: find_closer_skip_LF header_lines_start del: find_closer.simps)
  have 1: "find_closer ((str ''name: '' @ n) @ LF # str ''description: '' @ d @ LF #
                 str ''homepage: '' @ h @ LF # str ''metadata: '' @ m @ LF # str ''---'' @ LF # body)
             = Some (str ''name: '' @ n @ LF # str ''description: '' @ d @ LF #
                     str ''homepage: '' @ h @ LF # str ''metadata: '' @ m, b)"
    using assms lits 2
    by (subst find_closer_skip_line)
       (simp_all add: find_closer_skip_LF header_lines_start del: find_closer.simps)
  then show ?thesis by (simp del: find_closer.simps)
qed

lemma match_frontmatter_new_header:
  assumes "LF \<notin> set n" and "LF \<notin> set d" and "LF \<notin> set h" and "LF \<notin> set m"
  shows "\<exists>b. match_frontmatter (str ''---'' @ LF # str ''name: '' @ n @ LF #
                 str ''description: '' @ d @ LF # str ''homepage: '' @ h @ LF #
                 str ''metadata: '' @ m @ LF # str ''---'' @ LF # body)
              = Some (str ''name: '' @ n @ LF # str ''description: '' @ d @ LF #
                      str ''homepage: '' @ h @ LF # str ''metadata: '' @ m, b)"
proof -
  obtain b where b: "find_closer (str ''name: '' @ n @ LF # str ''description: '' @ d @ LF #
                 str ''homepage: '' @ h @ LF # str ''metadata: '' @ m @
                 LF # str ''---'' @ LF # body)
              = Some (str ''name: '' @ n @ LF # str ''description: '' @ d @ LF #
                      str ''homepage: '' @ h @ LF # str ''metadata: '' @ m, b)"
    using find_closer_new_header [OF assms] by blast
  define rest where "rest = n @ LF # str ''description: '' @ d @ LF #
                 str ''homepage: '' @ h @ LF # str ''metadata: '' @ m @
                 LF # str ''---'' @ LF # body"
  have ws: "takeWhile is_space (LF # str ''name: '' @ rest) = [LF]"
           "dropWhile is_space (LF # str ''name: '' @ rest) = str ''name: '' @ rest"
    by (simp_all add: str_def is_space_def LF_def)
  have "match_frontmatter (str ''---'' @ LF # str ''name: '' @ rest)
          = first_match (opener_ends (takeWhile is_space (LF # str ''name: '' @ rest))
                                     (dropWhile is_space (LF # str ''name: '' @ rest)))"
    by (simp add: match_frontmatter_def str_def)
  also have "\<dots> = find_closer (str ''name: '' @ rest)"
    unfolding ws using b by (simp add: rest_def del: find_closer.simps)
  finally show ?thesis
    using b by (auto simp: rest_def simp del: find_closer.simps)
qed

subsection \<open>Parsing a rewritten header\<close>

lemma split_on_line: "sep \<notin> set l \<Longrightarrow> split_on sep (l @ sep # t) = l # split_on sep t"
  by (induction l) auto

lemma split_on_single: "sep \<notin> set l \<Longrightarrow> split_on sep l = [l]"
  by (induction l) auto

lemma fm_loop_keeps: "map_of fm k \<noteq> None \<Longrightarrow> map_of (fm_loop lines fm) k \<noteq> None"
  by (induction lines arbitrary: fm) (auto simp: Let_def update_conv')

lemma fm_loop_step: "\<exists>fm'. fm_loop (l # ls) fm = fm_loop ls fm'"
  by (cases "COLON \<in> set (strip l)") (auto simp: Let_def)

lemma homepage_line:
  "fm_loop ((str ''homepage: '' @ 34 # HOMEPAGE @ [34]) # lines) fm
     = fm_loop lines (AList.update (str ''homepage'') HOMEPAGE fm)"
  by (simp add: str_def HOMEPAGE_def strip_def strip_where_def strip_char_def is_space_def
        COLON_def Let_def)

lemma fm_loop_new_header:
  "map_of (fm_loop [l1, l2, str ''homepage: '' @ 34 # HOMEPAGE @ [34], l4] []) (str ''homepage'')
     \<noteq> None"
proof -
  obtain fm1 where 1: "fm_loop [l1, l2, str ''homepage: '' @ 34 # HOMEPAGE @ [34], l4] []
                         = fm_loop [l2, str ''homepage: '' @ 34 # HOMEPAGE @ [34], l4] fm1"
    using fm_loop_step by blast
  obtain fm2 where 2: "fm_loop [l2, str ''homepage: '' @ 34 # HOMEPAGE @ [34], l4] fm1
                         = fm_loop [str ''homepage: '' @ 34 # HOMEPAGE @ [34], l4] fm2"
    using fm_loop_step by blast
  have "map_of (AList.update (str ''homepage'') HOMEPAGE fm2) (str ''homepage'') \<noteq> None"
    by (simp add: update_conv')
  then show ?thesis
    unfolding 1 2 homepage_line by (rule fm_loop_keeps)
qed

lemma new_content_text:
  "join [LF] (new_fm_lines name description metadata_str) @ [LF] @ body
     = str ''---'' @ LF # str ''name: '' @ (34 # name @ [34]) @ LF #
       str ''description: '' @ (34 # description @ [34]) @ LF #
       str ''homepage: '' @ (34 # HOMEPAGE @ [34]) @ LF #
       str ''metadata: '' @ metadata_str @ LF # str ''---'' @ LF # body"
  by (simp add: new_fm_lines_def)

lemma quoted_no_LF: "LF \<notin> set s \<Longrightarrow> LF \<notin> set (34 # s @ [34])"
  by (simp add: LF_def)

lemma HOMEPAGE_no_LF: "LF \<notin> set HOMEPAGE"
  by (simp add: HOMEPAGE_def str_def LF_def)

lemma header_literals_no_LF:
  "LF \<notin> set (str ''---'')" "LF \<notin> set (str ''name: '')" "LF \<notin> set (str ''description: '')"
  "LF \<notin> set (str ''homepage: '')" "LF \<notin> set (str ''metadata: '')"
  by (simp_all add: str_def LF_def)

lemma parse_new_header:
  assumes "LF \<notin> set name" and "LF \<notin> set description" and "LF \<notin> set metadata_str"
  shows "\<exists>fm b. parse_frontmatter
                   (join [LF] (new_fm_lines name description metadata_str) @ [LF] @ body)
                 = (Some fm, b) \<and> map_of fm (str ''homepage'') \<noteq> None"
proof -
  note q = quoted_no_LF [OF assms(1)] quoted_no_LF [OF assms(2)] quoted_no_LF [OF HOMEPAGE_no_LF]
  obtain b where m: "match_frontmatter
      (join [LF] (new_fm_lines name description metadata_str) @ [LF] @ body)
      = Some (str ''name: '' @ (34 # name @ [34]) @ LF #
              str ''description: '' @ (34 # description @ [34]) @ LF #
              str ''homepage: '' @ (34 # HOMEPAGE @ [34]) @ LF # str ''metadata: '' @ metadata_str, b)"
    unfolding new_content_text
    using match_frontmatter_new_header [OF q assms(3)] by blast
  have lines: "split_on LF (str ''name: '' @ (34 # name @ [34]) @ LF #
              str ''description: '' @ (34 # description @ [34]) @ LF #
              str ''homepage: '' @ (34 # HOMEPAGE @ [34]) @ LF # str ''metadata: '' @ metadata_str)
          = [str ''name: '' @ 34 # name @ [34], str ''description: '' @ 34 # description @ [34],
             str ''homepage: '' @ 34 # HOMEPAGE @ [34], str ''metadata: '' @ metadata_str]"
  proof -
    have a: "LF \<notin> set (str ''name: '' @ 34 # name @ [34])"
      "LF \<notin> set (str ''description: '' @ 34 # description @ [34])"
      "LF \<notin> set (str ''homepage: '' @ 34 # HOMEPAGE @ [34])"
      "LF \<notin> set (str ''metadata: '' @ metadata_str)"
      using q assms(3) header_literals_no_LF by simp_all
    have "split_on LF ((str ''name: '' @ 34 # name @ [34]) @ LF #
              (str ''description: '' @ 34 # description @ [34]) @ LF #
              (str ''homepage: '' @ 34 # HOMEPAGE @ [34]) @ LF # (str ''metadata: '' @ metadata_str))
          = [str ''name: '' @ 34 # name @ [34], str ''description: '' @ 34 # description @ [34],
             str ''homepage: '' @ 34 # HOMEPAGE @ [34], str ''metadata: '' @ metadata_str]"
      by (simp only: split_on_line [OF a(1)] split_on_line [OF a(2)] split_on_line [OF a(3)]
            split_on_single [OF a(4)])
    then show ?thesis by simp
  qed
  have "parse_frontmatter (join [LF] (new_fm_lines name description metadata_str) @ [LF] @ body)
          = (Some (fm_loop [str ''name: '' @ 34 # name @ [34],
                            str ''description: '' @ 34 # description @ [34],
                            str ''homepage: '' @ 34 # HOMEPAGE @ [34],
                            str ''metadata: '' @ metadata_str] []), b)"
    by (simp only: parse_frontmatter_def m option.case prod.case lines)
  with fm_loop_new_header show ?thesis
    by blast
qed

subsection \<open>The body of a parsed document\<close>






subsection \<open>The example skill\<close>

lemma example_parse:
  "parse_frontmatter example_content = (Some [(str ''name'', str ''x'')], str ''Body'' @ [LF])"
  by (simp add: example_content_def parse_frontmatter_def match_frontmatter_def closer_at_def
        is_space_def LF_def COLON_def strip_def strip_where_def strip_char_def str_def Let_def)

lemma example_updated_parse:
  "parse_frontmatter (str ''---'' @ [LF] @ str ''homepage: h'' @ [LF] @ str ''---'' @ [LF])
     = (Some [(str ''homepage'', str ''h'')], [])"
  by (simp add: parse_frontmatter_def match_frontmatter_def closer_at_def
        is_space_def LF_def COLON_def strip_def strip_where_def strip_char_def str_def Let_def)

lemma example_name:
  "skill_name [(str ''name'', str ''x'')] example_path = str ''x''"
  "skill_description [(str ''name'', str ''x'')] = []"
  "dir_name example_path = str ''x''"
  "map_of [(str ''name'', str ''x'')] (str ''homepage'') = None"
  "LF \<notin> set (str ''x'')"
  "str ''OK: '' @ str ''x'' = str ''OK: x''"
  "str ''SKIP (already updated): '' @ str ''x'' = str ''SKIP (already updated): x''"
  by (simp_all add: skill_name_def skill_description_def dict_get_def dir_name_def
        example_path_def str_def LF_def)


subsection \<open>The rewritten document and the second run\<close>


lemma example_files_md: "skill_md example_files = Some example_content"
  "skill_md example_files_kept = Some example_content"
  "claw_json example_files_kept = Some (str ''{}'')"
  "instructions_md example_files_kept = Some (str ''keep'')"
  by (simp_all add: example_files_def example_files_kept_def)

lemma example_path_nonempty: "example_path \<noteq> []" "[(str ''name'', str ''x'')] \<noteq> []"
  by (simp_all add: example_path_def)



text \<open>
  Claim C8. A skill whose header has the key \<open>homepage\<close> is skipped and no file changes,
  whatever its path (no category is looked up). After a run that processed a skill, a
  second run on the files it left reports the skip and changes none of them; the
  directory name is one line, as every file name under \<^verbatim>\<open>BASE\<close> is.
\<close>

theorem second_run_skips:
  "(skill_md fs = Some content \<and> parse_frontmatter content = (Some fm, body)
      \<and> map_of fm (str ''homepage'') \<noteq> None \<longrightarrow>
    process_skill ul parts fs
      = (Inr (Some (str ''SKIP (already updated): '' @ dir_name parts)), fs))
   \<and> (fst (process_skill ul parts' fs') = Inr (Some (str ''OK: '' @ name))
      \<and> LF \<notin> set (dir_name parts') \<longrightarrow>
    process_skill ul parts' (snd (process_skill ul parts' fs'))
      = (Inr (Some (str ''SKIP (already updated): '' @ dir_name parts')),
         snd (process_skill ul parts' fs')))"
proof (intro conjI impI)
  assume "skill_md fs = Some content \<and> parse_frontmatter content = (Some fm, body)
      \<and> map_of fm (str ''homepage'') \<noteq> None"
  then show "process_skill ul parts fs
      = (Inr (Some (str ''SKIP (already updated): '' @ dir_name parts)), fs)"
    using process_skill_already_updated by blast
next
  assume a: "fst (process_skill ul parts' fs') = Inr (Some (str ''OK: '' @ name))
      \<and> LF \<notin> set (dir_name parts')"
  then obtain c f b where run: "skill_md fs' = Some c" "parse_frontmatter c = (Some f, b)"
      "f \<noteq> []" "map_of f (str ''homepage'') = None" "parts' \<noteq> []"
    using process_skill_ok_inv by blast
  obtain emoji os_list r where new:
    "skill_md (snd (process_skill ul parts' fs'))
       = Some (join [LF] (new_fm_lines (skill_name f parts') (skill_description f)
                            (build_metadata emoji os_list HOMEPAGE r)) @ [LF] @ b)"
    using process_skill_ok(2) [OF run] by blast
  have "LF \<notin> set (skill_name f parts')"
    using skill_name_no_LF [OF run(2)] a by blast
  then obtain f2 b2 where
    "parse_frontmatter (join [LF] (new_fm_lines (skill_name f parts') (skill_description f)
                            (build_metadata emoji os_list HOMEPAGE r)) @ [LF] @ b) = (Some f2, b2)"
    "map_of f2 (str ''homepage'') \<noteq> None"
    using parse_new_header [OF _ skill_description_no_LF [OF run(2)] build_metadata_no_LF]
    by blast
  then show "process_skill ul parts' (snd (process_skill ul parts' fs'))
      = (Inr (Some (str ''SKIP (already updated): '' @ dir_name parts')),
         snd (process_skill ul parts' fs'))"
    using process_skill_already_updated [OF new] by blast
qed

lemma example_files_updated_md:
  "skill_md example_files_updated
     = Some (str ''---'' @ [LF] @ str ''homepage: h'' @ [LF] @ str ''---'' @ [LF])"
  by (simp add: example_files_updated_def)

lemma example_updated_homepage:
  "map_of [(str ''homepage'', str ''h'')] (str ''homepage'') \<noteq> None"
  by simp

theorem second_run_skips_witness:
  "process_skill id [] example_files_updated
     = (Inr (Some (str ''SKIP (already updated): DDC_Skills_for_AI_Agents_in_Construction'')),
        example_files_updated)
   \<and> fst (process_skill id example_path example_files) = Inr (Some (str ''OK: x''))
   \<and> process_skill id example_path (snd (process_skill id example_path example_files))
      = (Inr (Some (str ''SKIP (already updated): x'')),
         snd (process_skill id example_path example_files))"
proof -
  have ok: "fst (process_skill id example_path example_files) = Inr (Some (str ''OK: '' @ str ''x''))"
    using process_skill_ok(1) [OF example_files_md(1) example_parse example_path_nonempty(2)
         example_name(4) example_path_nonempty(1), of id]
    by (simp only: example_name)
  have d: "str ''SKIP (already updated): '' @ dir_name []
             = str ''SKIP (already updated): DDC_Skills_for_AI_Agents_in_Construction''"
    by (simp add: dir_name_def str_def)
  from second_run_skips [of example_files_updated _ "[(str ''homepage'', str ''h'')]" "[]" id "[]"
         example_path example_files "str ''x''"]
       example_files_updated_md example_updated_parse example_updated_homepage ok example_name(3,5)
  show ?thesis
    by (simp only: d example_name simp_thms not_False_eq_True)
qed

theorem existing_files_kept_witness:
  "claw_json (snd (process_skill id example_path example_files_kept)) = Some (str ''{}'')
   \<and> instructions_md (snd (process_skill id example_path example_files_kept)) = Some (str ''keep'')
   \<and> fst (process_skill id example_path example_files_kept) = Inr (Some (str ''OK: x''))"
proof -
  have ok: "fst (process_skill id example_path example_files_kept)
              = Inr (Some (str ''OK: '' @ str ''x''))"
    using process_skill_ok(1) [OF example_files_md(2) example_parse example_path_nonempty(2)
         example_name(4) example_path_nonempty(1), of id]
    by (simp only: example_name)
  from existing_files_kept [of example_files_kept "str ''{}''" id example_path "str ''keep''"]
       example_files_md(3,4) ok
  show ?thesis
    by (simp only: example_name simp_thms)
qed

section \<open>The example of the specification\<close>

lemma cwicr_example_tags:
  "determine_tags ul (str ''cwicr-cost-lookup'')
      (str ''Estimate material costs using the CWICR database'') (str ''CWICR-Database'') topcat
     = [str ''construction'', str ''estimation'', str ''cost-management'',
        str ''data-processing'', str ''procurement'']"
  apply (simp add: determine_tags_def tag_keywords_def str_def lower_def ascii_lower_def Let_def
           del: tags_loop.simps)
  apply (simp only: eval_contains tags_loop.simps append.simps)
  apply simp
  done

lemma cwicr_example_no_network:
  "\<not> any_in NETWORK_KEYWORDS (str ''Estimate material costs using the CWICR database'')"
  apply (simp add: str_def NETWORK_KEYWORDS_def del: contains.simps)
  apply (simp only: eval_contains)
  done

lemma cwicr_example_emoji:
  "determine_emoji [topcat, str ''CWICR-Database'', d] name = Inr [0x1F5C4, 0xFE0F]"
  by (simp add: determine_emoji_def get_subcategory_def get_top_category_def EMOJI_MAP_def str_def)

text \<open>
  Claim C1 as stated fails: on the example of the specification the tag \<open>"CWICR"\<close> is
  not among the tags. Five tags are found before its turn in the table, and the list is
  cut to five.
\<close>

theorem cwicr_example_counterexample:
  "str ''CWICR'' \<notin> set (determine_tags id (str ''cwicr-cost-lookup'')
      (str ''Estimate material costs using the CWICR database'') (str ''CWICR-Database'')
      (str ''1_DDC_Toolkit''))"
  unfolding cwicr_example_tags by (simp add: str_def)

text \<open>
  Claim C1, amended. For the name \<open>"cwicr-cost-lookup"\<close>, the description
  \<open>"Estimate material costs using the CWICR database"\<close> and the sub-category
  \<open>"CWICR-Database"\<close>, the emoji is the file cabinet of the sub-category, the tags are
  exactly \<open>construction\<close>, \<open>estimation\<close>, \<open>cost-management\<close>, \<open>data-processing\<close>,
  \<open>procurement\<close>, and the permissions are exactly \<open>["filesystem"]\<close> for a raw text without
  a network marker.
\<close>

theorem cwicr_example:
  "determine_emoji [topcat, str ''CWICR-Database'', d] (str ''cwicr-cost-lookup'')
     = Inr [0x1F5C4, 0xFE0F]
   \<and> determine_tags ul (str ''cwicr-cost-lookup'')
        (str ''Estimate material costs using the CWICR database'') (str ''CWICR-Database'') topcat
     = [str ''construction'', str ''estimation'', str ''cost-management'',
        str ''data-processing'', str ''procurement'']
   \<and> (\<not> (\<exists>kw\<in>set NETWORK_KEYWORDS. sublist kw content) \<longrightarrow>
        determine_permissions content = [str ''filesystem''])"
  by (simp add: cwicr_example_emoji cwicr_example_tags determine_permissions_def any_in_iff)

theorem cwicr_example_witness:
  "determine_emoji [str ''1_DDC_Toolkit'', str ''CWICR-Database'', str ''cwicr-cost-lookup'']
       (str ''cwicr-cost-lookup'') = Inr [0x1F5C4, 0xFE0F]
   \<and> determine_tags id (str ''cwicr-cost-lookup'')
        (str ''Estimate material costs using the CWICR database'') (str ''CWICR-Database'')
        (str ''1_DDC_Toolkit'')
     = [str ''construction'', str ''estimation'', str ''cost-management'',
        str ''data-processing'', str ''procurement'']
   \<and> determine_permissions (str ''Estimate material costs using the CWICR database'')
     = [str ''filesystem'']"
  using cwicr_example [of "str ''1_DDC_Toolkit''" "str ''cwicr-cost-lookup''" id
          "str ''Estimate material costs using the CWICR database''"]
        cwicr_example_no_network
  by (simp only: any_in_iff simp_thms)

end
